theory Spec2Isabelle
  imports Main "HOL-Library.AList"
begin

section \<open>Contact directory of \<^verbatim>\<open>hw_bot_cli_v3.py\<close>\<close>

text \<open>
  A Python \<^verbatim>\<open>str\<close> is modelled as \<^typ>\<open>string\<close>: a list of characters, each an
  8-bit code point. The development therefore speaks about strings over the code
  points 0..255; on these \<^verbatim>\<open>len\<close> is \<^const>\<open>length\<close> and the class \<^verbatim>\<open>\d\<close> of
  the \<^verbatim>\<open>re\<close> module holds exactly the ten ASCII digits. Code points above 255,
  among them the decimal digits of other scripts that \<^verbatim>\<open>\d\<close> also matches, are
  outside the model.
\<close>

subsection \<open>Fields\<close>

text \<open>
  \<^verbatim>\<open>Field\<close> stores one attribute \<^verbatim>\<open>value\<close>; \<^verbatim>\<open>Name\<close> and \<^verbatim>\<open>Phone\<close> are its two
  subclasses. The datatype constructors are the bare objects (what
  \<^verbatim>\<open>Field.__init__\<close> builds); the validating constructor of \<^verbatim>\<open>Phone\<close> is
  \<open>Phone_init\<close> below.
\<close>

datatype Name = Name (name_value: string)

datatype Phone = Phone (phone_value: string)

text \<open>\<^verbatim>\<open>Field.__str__\<close>: \<^verbatim>\<open>str(self.value)\<close>, the value itself.\<close>

definition Name_str :: "Name \<Rightarrow> string" where
  "Name_str n = name_value n"

definition Phone_str :: "Phone \<Rightarrow> string" where
  "Phone_str p = phone_value p"

datatype error = ValueError string

subsection \<open>The pattern \<^verbatim>\<open>^\d{10}$\<close>\<close>

definition newline :: char where
  "newline = CHR 0x0A"

definition is_digit :: "char \<Rightarrow> bool" where
  "is_digit c \<longleftrightarrow> c \<in> set ''0123456789''"

text \<open>\<^verbatim>\<open>\d{n}\<close>: consumes exactly \<open>n\<close> digits and yields the rest of the input.\<close>

fun match_digits :: "nat \<Rightarrow> string \<Rightarrow> string option" where
  "match_digits 0 s = Some s"
| "match_digits (Suc n) [] = None"
| "match_digits (Suc n) (c # cs) = (if is_digit c then match_digits n cs else None)"

text \<open>
  \<^verbatim>\<open>$\<close> without \<^verbatim>\<open>re.MULTILINE\<close>: holds at the end of the string, and also just
  before a newline that is the last character of the string.
\<close>

definition at_dollar :: "string \<Rightarrow> bool" where
  "at_dollar rest \<longleftrightarrow> rest = [] \<or> rest = [newline]"

text \<open>
  \<^verbatim>\<open>re.match(r"^\d{10}$", value)\<close> read as a truth value. \<^verbatim>\<open>re.match\<close> starts at
  position 0, where \<^verbatim>\<open>^\<close> holds.
\<close>

definition re_match_phone :: "string \<Rightarrow> bool" where
  "re_match_phone v = (case match_digits 10 v of None \<Rightarrow> False | Some rest \<Rightarrow> at_dollar rest)"

text \<open>\<^verbatim>\<open>Phone.__init__\<close>\<close>

definition Phone_init :: "string \<Rightarrow> error + Phone" where
  "Phone_init v =
     (if \<not> re_match_phone v
      then Inl (ValueError ''Phone number must contain exactly 10 digits.'')
      else Inr (Phone v))"

text \<open>
  The format the documentation names: a string of exactly ten digit characters.
\<close>

definition ten_digits :: "string \<Rightarrow> bool" where
  "ten_digits s \<longleftrightarrow> length s = 10 \<and> list_all is_digit s"

subsection \<open>Records\<close>

record Record =
  name :: Name
  phones :: "Phone list"

text \<open>\<^verbatim>\<open>Record.__init__\<close>\<close>

definition Record_init :: "string \<Rightarrow> Record" where
  "Record_init n = \<lparr>name = Name n, phones = []\<rparr>"

text \<open>
  The methods mutate \<^verbatim>\<open>self.phones\<close>. Each is modelled as a function from the
  record before the call to the outcome of the call (the returned string, or the
  exception raised) paired with the record after the call.
\<close>

text \<open>\<^verbatim>\<open>Record.add_phone\<close>: the constructor runs first; the append follows only if it returned.\<close>

definition add_phone :: "Record \<Rightarrow> string \<Rightarrow> (error + string) \<times> Record" where
  "add_phone r phone =
     (case Phone_init phone of
        Inl e \<Rightarrow> (Inl e, r)
      | Inr new_phone \<Rightarrow>
          (Inr (''Phone '' @ phone @ '' added to '' @ Name_str (name r) @ ''.''),
           r\<lparr>phones := phones r @ [new_phone]\<rparr>))"

text \<open>
  The scan \<^verbatim>\<open>for p in self.phones: if p.value == phone\<close>, shared by
  \<^verbatim>\<open>remove_phone\<close> and \<^verbatim>\<open>find_phone\<close>: the first phone whose value is \<open>phone\<close>.
\<close>

fun first_phone :: "Phone list \<Rightarrow> string \<Rightarrow> Phone option" where
  "first_phone [] phone = None"
| "first_phone (p # ps) phone = (if phone_value p = phone then Some p else first_phone ps phone)"

text \<open>
  \<^verbatim>\<open>Record.remove_phone\<close>: \<^verbatim>\<open>self.phones.remove(p)\<close> deletes the first element
  equal to \<open>p\<close>, and the method returns at once.
\<close>

definition remove_phone :: "Record \<Rightarrow> string \<Rightarrow> (error + string) \<times> Record" where
  "remove_phone r phone =
     (case first_phone (phones r) phone of
        Some p \<Rightarrow>
          (Inr (''Phone '' @ phone @ '' removed from '' @ Name_str (name r) @ ''.''),
           r\<lparr>phones := remove1 p (phones r)\<rparr>)
      | None \<Rightarrow> (Inr ''Phone number not found.'', r))"

text \<open>
  The scan \<^verbatim>\<open>for i, p in enumerate(self.phones): if p.value == old_phone\<close> of
  \<^verbatim>\<open>edit_phone\<close>: the index of the first phone whose value is \<open>old_phone\<close>, counted
  from \<open>i\<close>.
\<close>

fun first_index :: "nat \<Rightarrow> Phone list \<Rightarrow> string \<Rightarrow> nat option" where
  "first_index i [] old_phone = None"
| "first_index i (p # ps) old_phone =
     (if phone_value p = old_phone then Some i else first_index (Suc i) ps old_phone)"

text \<open>
  \<^verbatim>\<open>Record.edit_phone\<close>: in \<^verbatim>\<open>self.phones[i] = Phone(new_phone)\<close> the right-hand
  side is evaluated before the store, so an exception of the constructor leaves the
  list as it was.
\<close>

definition edit_phone :: "Record \<Rightarrow> string \<Rightarrow> string \<Rightarrow> (error + string) \<times> Record" where
  "edit_phone r old_phone new_phone =
     (case first_index 0 (phones r) old_phone of
        Some i \<Rightarrow>
          (case Phone_init new_phone of
             Inl e \<Rightarrow> (Inl e, r)
           | Inr p \<Rightarrow>
               (Inr (''Phone '' @ old_phone @ '' updated to '' @ new_phone @ '' for ''
                     @ Name_str (name r) @ ''.''),
                r\<lparr>phones := (phones r)[i := p]\<rparr>))
      | None \<Rightarrow> (Inr ''Old phone number not found.'', r))"

text \<open>\<^verbatim>\<open>Record.find_phone\<close>\<close>

definition find_phone :: "Record \<Rightarrow> string \<Rightarrow> Phone option" where
  "find_phone r phone = first_phone (phones r) phone"

text \<open>\<^verbatim>\<open>"; ".join(...)\<close>: the items with the separator between neighbours.\<close>

fun join :: "string \<Rightarrow> string list \<Rightarrow> string" where
  "join sep [] = []"
| "join sep [x] = x"
| "join sep (x # y # ys) = x @ sep @ join sep (y # ys)"

text \<open>\<^verbatim>\<open>Record.__str__\<close>\<close>

definition Record_str :: "Record \<Rightarrow> string" where
  "Record_str r =
     (let phones_str = join ''; '' (map Phone_str (phones r))
      in ''Contact name: '' @ name_value (name r) @ '', phones: '' @ phones_str)"

subsection \<open>The address book\<close>

text \<open>
  \<^verbatim>\<open>AddressBook\<close> is a \<^verbatim>\<open>UserDict\<close>; its \<^verbatim>\<open>data\<close> is a Python dictionary, which
  keeps its keys in insertion order. It is modelled as an association list:
  storing under a present key keeps the key's place, storing under a new key
  appends, as the dictionary does.
\<close>

type_synonym AddressBook = "(string \<times> Record) list"

text \<open>\<^verbatim>\<open>AddressBook.add_record\<close>\<close>

definition add_record :: "AddressBook \<Rightarrow> Record \<Rightarrow> string \<times> AddressBook" where
  "add_record book record =
     (''Contact '' @ name_value (name record) @ '' added to the address book.'',
      AList.update (name_value (name record)) record book)"

text \<open>\<^verbatim>\<open>AddressBook.find\<close>: \<^verbatim>\<open>self.data.get(name)\<close>\<close>

definition AddressBook_find :: "AddressBook \<Rightarrow> string \<Rightarrow> Record option" where
  "AddressBook_find book nm = map_of book nm"

text \<open>\<^verbatim>\<open>AddressBook.delete\<close>\<close>

definition AddressBook_delete :: "AddressBook \<Rightarrow> string \<Rightarrow> string \<times> AddressBook" where
  "AddressBook_delete book nm =
     (if nm \<in> fst ` set book
      then (''Contact '' @ nm @ '' has been deleted.'', AList.delete nm book)
      else (''Contact not found.'', book))"

text \<open>\<^verbatim>\<open>AddressBook.__str__\<close>\<close>

definition AddressBook_str :: "AddressBook \<Rightarrow> string" where
  "AddressBook_str book = join [newline] (map (\<lambda>(k, record). Record_str record) book)"

subsection \<open>Sequences of phone operations\<close>

datatype phone_op = AddPhone string | RemovePhone string | EditPhone string string

text \<open>
  One call on a record; only the record after the call is kept, whether the call
  returned or raised.
\<close>

fun apply_phone_op :: "Record \<Rightarrow> phone_op \<Rightarrow> Record" where
  "apply_phone_op r (AddPhone p) = snd (add_phone r p)"
| "apply_phone_op r (RemovePhone p) = snd (remove_phone r p)"
| "apply_phone_op r (EditPhone old new) = snd (edit_phone r old new)"

definition run_phone_ops :: "Record \<Rightarrow> phone_op list \<Rightarrow> Record" where
  "run_phone_ops r ops = foldl apply_phone_op r ops"

section \<open>The pattern and the ten-digit format\<close>

lemma match_digits_Some:
  "match_digits n s = Some rest \<longleftrightarrow> (\<exists>d. s = d @ rest \<and> length d = n \<and> list_all is_digit d)"
proof (induction n s rule: match_digits.induct)
  case (1 s)
  show ?case by auto
next
  case (2 n)
  show ?case by auto
next
  case (3 n c cs)
  show ?case
  proof (cases "is_digit c")
    case True
    with 3 show ?thesis
      by (auto simp: Cons_eq_append_conv length_Suc_conv)
  next
    case False
    then show ?thesis
      by (auto simp: Cons_eq_append_conv length_Suc_conv)
  qed
qed

lemma re_match_phone_iff:
  "re_match_phone v \<longleftrightarrow> ten_digits v \<or> (\<exists>d. ten_digits d \<and> v = d @ [newline])"
proof -
  have "re_match_phone v \<longleftrightarrow> (\<exists>rest. match_digits 10 v = Some rest \<and> at_dollar rest)"
    by (simp add: re_match_phone_def split: option.splits)
  also have "\<dots> \<longleftrightarrow> (\<exists>rest d. v = d @ rest \<and> length d = 10 \<and> list_all is_digit d \<and> at_dollar rest)"
    by (simp only: match_digits_Some) blast
  also have "\<dots> \<longleftrightarrow> ten_digits v \<or> (\<exists>d. ten_digits d \<and> v = d @ [newline])"
    by (auto simp: at_dollar_def ten_digits_def)
  finally show ?thesis .
qed

lemma ten_digits_re_match: "ten_digits v \<Longrightarrow> re_match_phone v"
  by (simp add: re_match_phone_iff)

lemma Phone_init_ten_digits: "ten_digits v \<Longrightarrow> Phone_init v = Inr (Phone v)"
  by (simp add: Phone_init_def ten_digits_re_match)

lemma Phone_init_Inr: "Phone_init v = Inr p \<longleftrightarrow> re_match_phone v \<and> p = Phone v"
  by (auto simp: Phone_init_def)

lemma Phone_init_Inl:
  "Phone_init v = Inl e \<longleftrightarrow>
     \<not> re_match_phone v \<and> e = ValueError ''Phone number must contain exactly 10 digits.''"
  by (auto simp: Phone_init_def)

section \<open>The scans over the phone list\<close>

lemma first_index_None: "first_index k ps old = None \<longleftrightarrow> old \<notin> phone_value ` set ps"
  by (induction ps arbitrary: k) auto

lemma first_index_Some:
  "first_index k ps old = Some i \<longleftrightarrow>
     k \<le> i \<and> i - k < length ps \<and> phone_value (ps ! (i - k)) = old
       \<and> (\<forall>j<i - k. phone_value (ps ! j) \<noteq> old)"
proof (induction ps arbitrary: k)
  case Nil
  show ?case by simp
next
  case (Cons p ps)
  show ?case
  proof (cases "phone_value p = old")
    case True
    then show ?thesis by (cases "i - k") auto
  next
    case False
    have "first_index k (p # ps) old = Some i \<longleftrightarrow> first_index (Suc k) ps old = Some i"
      using False by simp
    also have "\<dots> \<longleftrightarrow> Suc k \<le> i \<and> i - Suc k < length ps \<and> phone_value (ps ! (i - Suc k)) = old
       \<and> (\<forall>j<i - Suc k. phone_value (ps ! j) \<noteq> old)"
      by (rule Cons.IH)
    also have "\<dots> \<longleftrightarrow> k \<le> i \<and> i - k < length (p # ps) \<and> phone_value ((p # ps) ! (i - k)) = old
       \<and> (\<forall>j<i - k. phone_value ((p # ps) ! j) \<noteq> old)"
    proof (cases "i - k")
      case 0
      then show ?thesis using False by auto
    next
      case (Suc m)
      then have eq: "i - Suc k = m" "Suc k \<le> i" "k \<le> i" by arith+
      show ?thesis
        unfolding Suc eq using False eq(2,3)
        by (auto simp: nth_Cons' less_Suc_eq_0_disj)
    qed
    finally show ?thesis .
  qed
qed

lemma first_index_0_Some:
  "first_index 0 ps old = Some i \<longleftrightarrow>
     i < length ps \<and> phone_value (ps ! i) = old \<and> (\<forall>j<i. phone_value (ps ! j) \<noteq> old)"
  by (simp add: first_index_Some)

lemma first_phone_None: "first_phone ps x = None \<longleftrightarrow> x \<notin> phone_value ` set ps"
  by (induction ps) auto

lemma first_phone_Some: "first_phone ps x = Some p \<Longrightarrow> p \<in> set ps \<and> phone_value p = x"
  by (induction ps) (auto split: if_splits simp: Phone.expand)

lemma first_phone_mem: "x \<in> phone_value ` set ps \<Longrightarrow> first_phone ps x = Some (Phone x)"
  by (induction ps) (auto simp: Phone.expand)

lemma join_snoc: "join sep (xs @ [x]) = (if xs = [] then x else join sep xs @ sep @ x)"
  by (induction sep xs rule: join.induct) auto

section \<open>Outcomes of the record operations\<close>

lemma edit_phone_found_rejected:
  assumes "old \<in> phone_value ` set (phones r)" and "\<not> re_match_phone new"
  shows "edit_phone r old new =
           (Inl (ValueError ''Phone number must contain exactly 10 digits.''), r)"
proof -
  from assms(1) obtain i where "first_index 0 (phones r) old = Some i"
    using first_index_None [of 0 "phones r" old] by auto
  with assms(2) show ?thesis
    by (simp add: edit_phone_def Phone_init_def)
qed

lemma edit_phone_found_accepted:
  assumes "first_index 0 (phones r) old = Some i" and "re_match_phone new"
  shows "edit_phone r old new =
           (Inr (''Phone '' @ old @ '' updated to '' @ new @ '' for '' @ name_value (name r) @ ''.''),
            r\<lparr>phones := (phones r)[i := Phone new]\<rparr>)"
  using assms by (simp add: edit_phone_def Phone_init_def Name_str_def)

lemma edit_phone_absent:
  assumes "old \<notin> phone_value ` set (phones r)"
  shows "edit_phone r old new = (Inr ''Old phone number not found.'', r)"
  using assms by (simp add: edit_phone_def first_index_None [THEN iffD2])

lemma add_phone_accepted:
  "re_match_phone p \<Longrightarrow>
     add_phone r p = (Inr (''Phone '' @ p @ '' added to '' @ name_value (name r) @ ''.''),
                      r\<lparr>phones := phones r @ [Phone p]\<rparr>)"
  by (simp add: add_phone_def Phone_init_def Name_str_def)

lemma add_phone_rejected:
  "\<not> re_match_phone p \<Longrightarrow>
     add_phone r p = (Inl (ValueError ''Phone number must contain exactly 10 digits.''), r)"
  by (simp add: add_phone_def Phone_init_def)

section \<open>Concrete phone numbers\<close>

lemma ten_digits_1234567890: "ten_digits ''1234567890''"
  by (simp add: ten_digits_def is_digit_def)

lemma ten_digits_1112223333: "ten_digits ''1112223333''"
  by (simp add: ten_digits_def is_digit_def)

lemma ten_digits_5555555555: "ten_digits ''5555555555''"
  by (simp add: ten_digits_def is_digit_def)

lemma not_re_match_short: "length s < 10 \<Longrightarrow> \<not> re_match_phone s"
  by (auto simp: re_match_phone_iff ten_digits_def)

section \<open>Creation of a phone number\<close>

text \<open>
  Every string of exactly ten digits is accepted and stored unchanged
  (\<open>Phone_init_ten_digits\<close>), and a string is accepted only if it is ten digits, or
  ten digits followed by one newline (\<open>re_match_phone_iff\<close>).

  C1: the claim says that creation fails for every string whose length is not 10 or
  that holds a non-digit character. At the eleven-character string of the digits
  \<^verbatim>\<open>1234567890\<close> followed by a newline, which holds a non-digit character,
  \<^verbatim>\<open>Phone.__init__\<close> returns and stores the string with its newline: \<^verbatim>\<open>$\<close> holds
  before a final newline.
\<close>

theorem C1_Phone_init_accepts_trailing_newline:
  "Phone_init (''1234567890'' @ [newline]) = Inr (Phone (''1234567890'' @ [newline]))
   \<and> length (''1234567890'' @ [newline]) = 11
   \<and> \<not> list_all is_digit (''1234567890'' @ [newline])"
proof -
  have "re_match_phone (''1234567890'' @ [newline])"
    using ten_digits_1234567890 by (simp only: re_match_phone_iff) blast
  then have "Phone_init (''1234567890'' @ [newline]) = Inr (Phone (''1234567890'' @ [newline]))"
    by (simp add: Phone_init_def)
  moreover have "\<not> is_digit newline"
    by (simp add: is_digit_def newline_def)
  ultimately show ?thesis by simp
qed

section \<open>Editing a phone\<close>

text \<open>
  When the old value is present and the constructor rejects the new one, the call
  raises and the record is as before (\<open>edit_phone_found_rejected\<close>).

  C2: the claim says that editing a present phone to a new value that is not exactly
  ten digits raises and leaves the phone list unchanged. On the record John with the
  one phone \<^verbatim>\<open>1234567890\<close>, editing it to \<^verbatim>\<open>1112223333\<close> followed by a newline
  (not a string of ten digits) returns the confirmation and stores the new value with
  its newline.
\<close>

theorem C2_edit_phone_accepts_trailing_newline:
  "''1234567890'' \<in> phone_value ` set (phones \<lparr>name = Name ''John'', phones = [Phone ''1234567890'']\<rparr>)
   \<and> \<not> ten_digits (''1112223333'' @ [newline])
   \<and> edit_phone \<lparr>name = Name ''John'', phones = [Phone ''1234567890'']\<rparr>
        ''1234567890'' (''1112223333'' @ [newline])
      = (Inr (''Phone 1234567890 updated to 1112223333'' @ [newline] @ '' for John.''),
         \<lparr>name = Name ''John'', phones = [Phone (''1112223333'' @ [newline])]\<rparr>)"
proof -
  have "re_match_phone (''1112223333'' @ [newline])"
    using ten_digits_1112223333 by (simp only: re_match_phone_iff) blast
  then show ?thesis
    by (simp add: edit_phone_def Phone_init_def Name_str_def ten_digits_def)
qed

section \<open>Editing a present phone to a valid value\<close>

lemma first_phone_update_new:
  "i < length ps \<Longrightarrow> first_phone (ps[i := Phone new]) new = Some (Phone new)"
  by (rule first_phone_mem) (auto simp: set_conv_nth nth_list_update intro!: image_eqI [where x = "Phone new"] exI [where x = i])

lemma first_phone_update_old:
  assumes "i < length ps" and "new \<noteq> old"
    and "\<forall>j<length ps. j \<noteq> i \<longrightarrow> phone_value (ps ! j) \<noteq> old"
  shows "first_phone (ps[i := Phone new]) old = None"
proof -
  have "phone_value q \<noteq> old" if "q \<in> set (ps[i := Phone new])" for q
  proof -
    from that obtain j where j: "j < length ps" "q = ps[i := Phone new] ! j"
      by (auto simp: set_conv_nth)
    show ?thesis
      using j assms by (cases "j = i") auto
  qed
  then show ?thesis
    by (auto simp: first_phone_None)
qed

text \<open>
  C3 (as amended): if the first phone of the record with value \<open>old\<close> is at position
  \<open>i\<close> and \<open>new\<close> is a string of ten digits, then \<^verbatim>\<open>edit_phone\<close> returns the
  confirmation, the entry at position \<open>i\<close> becomes \<open>new\<close>, the length of the list and
  every other position are unchanged, \<^verbatim>\<open>find_phone\<close> on \<open>new\<close> returns a match, and
  \<^verbatim>\<open>find_phone\<close> on \<open>old\<close> returns \<^verbatim>\<open>None\<close> when no other position holds \<open>old\<close> and
  \<open>new\<close> differs from \<open>old\<close>.
\<close>

theorem C3_edit_phone_replaces_in_place:
  assumes "i < length (phones r)"
    and "phone_value (phones r ! i) = old"
    and "\<forall>j<i. phone_value (phones r ! j) \<noteq> old"
    and "ten_digits new"
  shows "fst (edit_phone r old new) =
           Inr (''Phone '' @ old @ '' updated to '' @ new @ '' for '' @ name_value (name r) @ ''.'')
       \<and> snd (edit_phone r old new) = r\<lparr>phones := (phones r)[i := Phone new]\<rparr>
       \<and> length (phones (snd (edit_phone r old new))) = length (phones r)
       \<and> phones (snd (edit_phone r old new)) ! i = Phone new
       \<and> (\<forall>j<length (phones r). j \<noteq> i \<longrightarrow>
            phones (snd (edit_phone r old new)) ! j = phones r ! j)
       \<and> find_phone (snd (edit_phone r old new)) new = Some (Phone new)
       \<and> (new \<noteq> old \<and> (\<forall>j<length (phones r). j \<noteq> i \<longrightarrow> phone_value (phones r ! j) \<noteq> old)
            \<longrightarrow> find_phone (snd (edit_phone r old new)) old = None)"
proof -
  have idx: "first_index 0 (phones r) old = Some i"
    using assms(1-3) by (simp add: first_index_0_Some)
  have eq: "edit_phone r old new =
      (Inr (''Phone '' @ old @ '' updated to '' @ new @ '' for '' @ name_value (name r) @ ''.''),
       r\<lparr>phones := (phones r)[i := Phone new]\<rparr>)"
    by (rule edit_phone_found_accepted [OF idx ten_digits_re_match [OF assms(4)]])
  have new: "find_phone (r\<lparr>phones := (phones r)[i := Phone new]\<rparr>) new = Some (Phone new)"
    using assms(1) by (simp add: find_phone_def first_phone_update_new)
  have old: "find_phone (r\<lparr>phones := (phones r)[i := Phone new]\<rparr>) old = None"
    if "new \<noteq> old" "\<forall>j<length (phones r). j \<noteq> i \<longrightarrow> phone_value (phones r ! j) \<noteq> old"
    using assms(1) that by (simp add: find_phone_def first_phone_update_old)
  show ?thesis
    unfolding eq fst_conv snd_conv using assms(1) new old by simp
qed

text \<open>
  The theorem at John's phones \<^verbatim>\<open>5555555555\<close>, \<^verbatim>\<open>1234567890\<close>, editing the second
  to \<^verbatim>\<open>1112223333\<close>.
\<close>

theorem C3_edit_phone_replaces_in_place_witness:
  "fst (edit_phone \<lparr>name = Name ''John'', phones = [Phone ''5555555555'', Phone ''1234567890'']\<rparr>
          ''1234567890'' ''1112223333'')
     = Inr ''Phone 1234567890 updated to 1112223333 for John.''
   \<and> phones (snd (edit_phone \<lparr>name = Name ''John'', phones = [Phone ''5555555555'', Phone ''1234567890'']\<rparr>
          ''1234567890'' ''1112223333''))
     = [Phone ''5555555555'', Phone ''1112223333'']
   \<and> find_phone (snd (edit_phone \<lparr>name = Name ''John'', phones = [Phone ''5555555555'', Phone ''1234567890'']\<rparr>
          ''1234567890'' ''1112223333'')) ''1112223333'' = Some (Phone ''1112223333'')
   \<and> find_phone (snd (edit_phone \<lparr>name = Name ''John'', phones = [Phone ''5555555555'', Phone ''1234567890'']\<rparr>
          ''1234567890'' ''1112223333'')) ''1234567890'' = None"
  using C3_edit_phone_replaces_in_place
    [of 1 "\<lparr>name = Name ''John'', phones = [Phone ''5555555555'', Phone ''1234567890'']\<rparr>"
        "''1234567890''" "''1112223333''", OF _ _ _ ten_digits_1112223333]
  by (simp add: less_Suc_eq_0_disj find_phone_def)

text \<open>
  The claim as written, without the condition that \<open>new\<close> differs from \<open>old\<close>, fails
  when a phone is edited to its own value: the only copy of \<open>old\<close> is replaced, and
  \<^verbatim>\<open>find_phone\<close> on \<open>old\<close> still returns a match.
\<close>

theorem C3_edit_phone_same_value_counterexample:
  "0 < length (phones \<lparr>name = Name ''John'', phones = [Phone ''1234567890'']\<rparr>)
   \<and> phone_value (phones \<lparr>name = Name ''John'', phones = [Phone ''1234567890'']\<rparr> ! 0) = ''1234567890''
   \<and> length (phones \<lparr>name = Name ''John'', phones = [Phone ''1234567890'']\<rparr>) = 1
   \<and> ten_digits ''1234567890''
   \<and> find_phone (snd (edit_phone \<lparr>name = Name ''John'', phones = [Phone ''1234567890'']\<rparr>
        ''1234567890'' ''1234567890'')) ''1234567890'' = Some (Phone ''1234567890'')"
  using ten_digits_1234567890
  by (simp add: edit_phone_def Phone_init_def ten_digits_re_match find_phone_def)

text \<open>
  C4: if no phone of the record has the value \<open>old\<close>, then for every string \<open>new\<close>,
  valid or not, \<^verbatim>\<open>edit_phone\<close> returns the string \<^verbatim>\<open>Old phone number not found.\<close>,
  raises nothing, and leaves the record as it was.
\<close>

theorem C4_edit_phone_absent_old:
  assumes "old \<notin> phone_value ` set (phones r)"
  shows "edit_phone r old new = (Inr ''Old phone number not found.'', r)"
  using assms by (rule edit_phone_absent)

text \<open>
  The theorem at a new value that the constructor would reject.
\<close>

theorem C4_edit_phone_absent_old_witness:
  "edit_phone \<lparr>name = Name ''John'', phones = [Phone ''1234567890'']\<rparr> ''0000000000'' ''abc''
     = (Inr ''Old phone number not found.'', \<lparr>name = Name ''John'', phones = [Phone ''1234567890'']\<rparr>)
   \<and> Phone_init ''abc'' = Inl (ValueError ''Phone number must contain exactly 10 digits.'')"
  using C4_edit_phone_absent_old
    [of "''0000000000''" "\<lparr>name = Name ''John'', phones = [Phone ''1234567890'']\<rparr>" "''abc''"]
  by (simp add: Phone_init_def not_re_match_short)

section \<open>The address book operations\<close>

lemma map_fst_update_present:
  "k \<in> fst ` set al \<Longrightarrow> map fst (AList.update k v al) = map fst al"
  by (induction al) auto

text \<open>
  C5: if the name of the record is already a key of the address book, then
  \<^verbatim>\<open>add_record\<close> returns the confirmation, looking the name up afterwards gives
  exactly the new record, every other key keeps its entry, and the keys (with their
  order) are unchanged. In a book with distinct keys no entry under that name other
  than the new record remains, so the phones of the previous record are gone.
\<close>

theorem C5_add_record_overwrites:
  assumes "name_value (name record) \<in> fst ` set book"
  shows "fst (add_record book record) =
           ''Contact '' @ name_value (name record) @ '' added to the address book.''
       \<and> AddressBook_find (snd (add_record book record)) (name_value (name record)) = Some record
       \<and> (\<forall>k. k \<noteq> name_value (name record) \<longrightarrow>
            AddressBook_find (snd (add_record book record)) k = AddressBook_find book k)
       \<and> map fst (snd (add_record book record)) = map fst book
       \<and> (distinct (map fst book) \<longrightarrow>
            (\<forall>old. (name_value (name record), old) \<in> set (snd (add_record book record))
               \<longrightarrow> old = record))"
proof -
  let ?k = "name_value (name record)"
  have keys: "map fst (AList.update ?k record book) = map fst book"
    using assms by (rule map_fst_update_present)
  have "old = record"
    if d: "distinct (map fst book)" and m: "(?k, old) \<in> set (AList.update ?k record book)" for old
  proof -
    have "distinct (map fst (AList.update ?k record book))"
      using d by (simp add: keys)
    then have "map_of (AList.update ?k record book) ?k = Some old"
      using m by (rule map_of_is_SomeI)
    then show ?thesis by (simp add: update_conv')
  qed
  then show ?thesis
    by (simp add: add_record_def AddressBook_find_def update_conv' keys)
qed

text \<open>
  The theorem at a book holding John and Jane, adding another record named John.
\<close>

theorem C5_add_record_overwrites_witness:
  "snd (add_record [(''John'', \<lparr>name = Name ''John'', phones = [Phone ''1234567890'']\<rparr>),
                    (''Jane'', \<lparr>name = Name ''Jane'', phones = [Phone ''9876543210'']\<rparr>)]
         \<lparr>name = Name ''John'', phones = [Phone ''5555555555'']\<rparr>)
     = [(''John'', \<lparr>name = Name ''John'', phones = [Phone ''5555555555'']\<rparr>),
        (''Jane'', \<lparr>name = Name ''Jane'', phones = [Phone ''9876543210'']\<rparr>)]
   \<and> AddressBook_find (snd (add_record [(''John'', \<lparr>name = Name ''John'', phones = [Phone ''1234567890'']\<rparr>),
                    (''Jane'', \<lparr>name = Name ''Jane'', phones = [Phone ''9876543210'']\<rparr>)]
         \<lparr>name = Name ''John'', phones = [Phone ''5555555555'']\<rparr>)) ''John''
     = Some \<lparr>name = Name ''John'', phones = [Phone ''5555555555'']\<rparr>"
  using C5_add_record_overwrites
    [of "\<lparr>name = Name ''John'', phones = [Phone ''5555555555'']\<rparr>"
        "[(''John'', \<lparr>name = Name ''John'', phones = [Phone ''1234567890'']\<rparr>),
          (''Jane'', \<lparr>name = Name ''Jane'', phones = [Phone ''9876543210'']\<rparr>)]"]
  by (simp add: add_record_def)

text \<open>
  C6: if the name is not a key of the address book, then \<^verbatim>\<open>delete\<close> returns the
  string \<^verbatim>\<open>Contact not found.\<close> as an ordinary value and the book, in particular
  its number of entries, is unchanged.
\<close>

theorem C6_delete_absent_name:
  assumes "nm \<notin> fst ` set book"
  shows "AddressBook_delete book nm = (''Contact not found.'', book)
       \<and> length (snd (AddressBook_delete book nm)) = length book"
  using assms by (simp add: AddressBook_delete_def)

text \<open>
  The theorem at a book holding only John, deleting Jane.
\<close>

theorem C6_delete_absent_name_witness:
  "AddressBook_delete [(''John'', \<lparr>name = Name ''John'', phones = [Phone ''1234567890'']\<rparr>)] ''Jane''
     = (''Contact not found.'', [(''John'', \<lparr>name = Name ''John'', phones = [Phone ''1234567890'']\<rparr>)])"
  using C6_delete_absent_name
    [of "''Jane''" "[(''John'', \<lparr>name = Name ''John'', phones = [Phone ''1234567890'']\<rparr>)]"]
  by simp

section \<open>Adding a phone and finding it\<close>

text \<open>
  C7: for every record and every string \<open>p\<close> of ten digits, \<^verbatim>\<open>add_phone\<close> with \<open>p\<close>
  returns its confirmation, and \<^verbatim>\<open>find_phone\<close> with \<open>p\<close> on the record after the
  call returns a phone whose stored value is \<open>p\<close>.
\<close>

theorem C7_add_then_find:
  assumes "ten_digits p"
  shows "fst (add_phone r p) = Inr (''Phone '' @ p @ '' added to '' @ name_value (name r) @ ''.'')
       \<and> (\<exists>q. find_phone (snd (add_phone r p)) p = Some q \<and> phone_value q = p)"
proof -
  have "add_phone r p = (Inr (''Phone '' @ p @ '' added to '' @ name_value (name r) @ ''.''),
                         r\<lparr>phones := phones r @ [Phone p]\<rparr>)"
    using assms by (simp add: add_phone_accepted ten_digits_re_match)
  moreover have "first_phone (phones r @ [Phone p]) p = Some (Phone p)"
    by (rule first_phone_mem) (simp add: image_iff)
  ultimately show ?thesis
    by (simp add: find_phone_def)
qed

text \<open>
  The theorem at John with the phone \<^verbatim>\<open>5555555555\<close>, adding \<^verbatim>\<open>1234567890\<close>.
\<close>

theorem C7_add_then_find_witness:
  "fst (add_phone \<lparr>name = Name ''John'', phones = [Phone ''5555555555'']\<rparr> ''1234567890'')
     = Inr ''Phone 1234567890 added to John.''
   \<and> (\<exists>q. find_phone (snd (add_phone \<lparr>name = Name ''John'', phones = [Phone ''5555555555'']\<rparr> ''1234567890''))
            ''1234567890'' = Some q \<and> phone_value q = ''1234567890'')"
  using C7_add_then_find [OF ten_digits_1234567890,
      of "\<lparr>name = Name ''John'', phones = [Phone ''5555555555'']\<rparr>"]
  by simp

section \<open>Rendering a record\<close>

lemma phones_run_adds:
  "list_all re_match_phone ps \<Longrightarrow>
     run_phone_ops r (map AddPhone ps) = r\<lparr>phones := phones r @ map Phone ps\<rparr>"
  unfolding run_phone_ops_def
  by (induction ps arbitrary: r) (simp_all add: add_phone_accepted)

text \<open>
  C8: \<^verbatim>\<open>Record.__str__\<close> renders \<^verbatim>\<open>Contact name: \<close>, the name, \<^verbatim>\<open>, phones: \<close> and
  the phone values joined by \<^verbatim>\<open>; \<close> in the order of the list; a record built from
  a fresh one by adding accepted phones one after the other renders them in the
  order they were added; and the record John with \<^verbatim>\<open>1234567890\<close> then
  \<^verbatim>\<open>5555555555\<close> added renders as
  \<^verbatim>\<open>Contact name: John, phones: 1234567890; 5555555555\<close>.
\<close>

theorem C8_Record_str:
  "Record_str r = ''Contact name: '' @ name_value (name r) @ '', phones: ''
                    @ join ''; '' (map phone_value (phones r))
   \<and> (list_all re_match_phone ps \<longrightarrow>
        Record_str (run_phone_ops (Record_init n) (map AddPhone ps))
          = ''Contact name: '' @ n @ '', phones: '' @ join ''; '' ps)
   \<and> Record_str (run_phone_ops (Record_init ''John'') [AddPhone ''1234567890'', AddPhone ''5555555555''])
       = ''Contact name: John, phones: 1234567890; 5555555555''"
proof -
  have a: "Record_str r = ''Contact name: '' @ name_value (name r) @ '', phones: ''
                    @ join ''; '' (map phone_value (phones r))" for r
    by (simp add: Record_str_def Phone_str_def [abs_def])
  have b: "Record_str (run_phone_ops (Record_init n) (map AddPhone ps))
          = ''Contact name: '' @ n @ '', phones: '' @ join ''; '' ps"
    if "list_all re_match_phone ps" for n ps
    using that by (simp add: a phones_run_adds Record_init_def comp_def)
  have "list_all re_match_phone [''1234567890'', ''5555555555'']"
    using ten_digits_1234567890 ten_digits_5555555555 by (simp add: ten_digits_re_match)
  from b [OF this, of "''John''"]
  have c: "Record_str (run_phone_ops (Record_init ''John'') [AddPhone ''1234567890'', AddPhone ''5555555555''])
       = ''Contact name: John, phones: 1234567890; 5555555555''"
    by simp
  from a b c show ?thesis by blast
qed

text \<open>
  The theorem at Jane with three phones added, one of them twice.
\<close>

theorem C8_Record_str_witness:
  "Record_str (run_phone_ops (Record_init ''Jane'') [AddPhone ''1112223333'', AddPhone ''1234567890'', AddPhone ''1112223333''])
     = ''Contact name: Jane, phones: 1112223333; 1234567890; 1112223333''"
proof -
  have "list_all re_match_phone [''1112223333'', ''1234567890'', ''1112223333'']"
    using ten_digits_1234567890 ten_digits_1112223333 by (simp add: ten_digits_re_match)
  with C8_Record_str [of "Record_init ''Jane''" "[''1112223333'', ''1234567890'', ''1112223333'']" "''Jane''"]
  show ?thesis by simp
qed

section \<open>The format of the stored phones\<close>

lemma add_phone_keeps_format:
  assumes "\<forall>q\<in>set (phones r). re_match_phone (phone_value q)"
  shows "\<forall>q\<in>set (phones (snd (add_phone r p))). re_match_phone (phone_value q)"
  using assms by (cases "re_match_phone p") (simp_all add: add_phone_accepted add_phone_rejected)

lemma remove_phone_keeps_format:
  assumes "\<forall>q\<in>set (phones r). re_match_phone (phone_value q)"
  shows "\<forall>q\<in>set (phones (snd (remove_phone r p))). re_match_phone (phone_value q)"
  using assms by (auto simp: remove_phone_def split: option.splits dest: notin_set_remove1)

lemma edit_phone_keeps_format:
  assumes "\<forall>q\<in>set (phones r). re_match_phone (phone_value q)"
  shows "\<forall>q\<in>set (phones (snd (edit_phone r old new))). re_match_phone (phone_value q)"
proof (cases "first_index 0 (phones r) old")
  case None
  with assms show ?thesis by (simp add: edit_phone_def)
next
  case (Some i)
  show ?thesis
  proof (cases "re_match_phone new")
    case True
    have "set ((phones r)[i := Phone new]) \<subseteq> insert (Phone new) (set (phones r))"
      by (rule set_update_subset_insert)
    with assms True show ?thesis
      by (auto simp: edit_phone_found_accepted [OF Some True])
  next
    case False
    with Some assms show ?thesis
      by (simp add: edit_phone_def Phone_init_def)
  qed
qed

lemma apply_phone_op_keeps_format:
  assumes "\<forall>q\<in>set (phones r). re_match_phone (phone_value q)"
  shows "\<forall>q\<in>set (phones (apply_phone_op r x)). re_match_phone (phone_value q)"
proof (cases x)
  case (AddPhone p)
  with add_phone_keeps_format [OF assms] show ?thesis by simp
next
  case (RemovePhone p)
  with remove_phone_keeps_format [OF assms] show ?thesis by simp
next
  case (EditPhone old new)
  with edit_phone_keeps_format [OF assms] show ?thesis by simp
qed

lemma run_phone_ops_keeps_format:
  assumes "\<forall>q\<in>set (phones r). re_match_phone (phone_value q)"
  shows "\<forall>q\<in>set (phones (run_phone_ops r ops)). re_match_phone (phone_value q)"
  using assms unfolding run_phone_ops_def
proof (induction ops arbitrary: r)
  case Nil
  then show ?case by simp
next
  case (Cons x ops)
  from Cons.prems have "\<forall>q\<in>set (phones (apply_phone_op r x)). re_match_phone (phone_value q)"
    by (rule apply_phone_op_keeps_format)
  then show ?case
    using Cons.IH by simp
qed

text \<open>
  C9: after any sequence of \<^verbatim>\<open>add_phone\<close>, \<^verbatim>\<open>remove_phone\<close> and \<^verbatim>\<open>edit_phone\<close>
  calls on a freshly created record, each of them returning or raising, the value of
  every phone in the list matches the pattern of \<^verbatim>\<open>Phone.__init__\<close>, and the phone
  is what that constructor builds from its value.
\<close>

theorem C9_stored_phones_match_pattern:
  "\<forall>q\<in>set (phones (run_phone_ops (Record_init n) ops)).
     re_match_phone (phone_value q) \<and> Phone_init (phone_value q) = Inr q"
proof -
  have "\<forall>q\<in>set (phones (Record_init n)). re_match_phone (phone_value q)"
    by (simp add: Record_init_def)
  then have "\<forall>q\<in>set (phones (run_phone_ops (Record_init n) ops)). re_match_phone (phone_value q)"
    by (rule run_phone_ops_keeps_format)
  then show ?thesis
    by (simp add: Phone_init_def)
qed


text \<open>
  The theorem at a run on John with seven calls, two of which raise.
\<close>

theorem C9_stored_phones_match_pattern_witness:
  "phones (run_phone_ops (Record_init ''John'')
             [AddPhone ''1234567890'', AddPhone ''12345'', AddPhone ''5555555555'',
              EditPhone ''1234567890'' ''1112223333'', EditPhone ''5555555555'' ''abc'',
              RemovePhone ''5555555555'', AddPhone ''1234567890''])
     = [Phone ''1112223333'', Phone ''1234567890'']
   \<and> re_match_phone ''1112223333'' \<and> re_match_phone ''1234567890''"
proof -
  have m: "re_match_phone ''1234567890''" "re_match_phone ''5555555555''"
      "re_match_phone ''1112223333''" "\<not> re_match_phone ''12345''" "\<not> re_match_phone ''abc''"
    using ten_digits_1234567890 ten_digits_5555555555 ten_digits_1112223333
    by (simp_all add: ten_digits_re_match not_re_match_short)
  have eq: "phones (run_phone_ops (Record_init ''John'')
             [AddPhone ''1234567890'', AddPhone ''12345'', AddPhone ''5555555555'',
              EditPhone ''1234567890'' ''1112223333'', EditPhone ''5555555555'' ''abc'',
              RemovePhone ''5555555555'', AddPhone ''1234567890''])
     = [Phone ''1112223333'', Phone ''1234567890'']"
    by (simp add: run_phone_ops_def Record_init_def add_phone_def edit_phone_def
        remove_phone_def Phone_init_def m)
  from C9_stored_phones_match_pattern [of "''John''"
      "[AddPhone ''1234567890'', AddPhone ''12345'', AddPhone ''5555555555'',
        EditPhone ''1234567890'' ''1112223333'', EditPhone ''5555555555'' ''abc'',
        RemovePhone ''5555555555'', AddPhone ''1234567890'']"]
  show ?thesis
    unfolding eq by simp
qed

section \<open>Adding a rejected phone\<close>

text \<open>
  C10: if \<^verbatim>\<open>Phone.__init__\<close> rejects the string, \<^verbatim>\<open>add_phone\<close> raises that same
  error, the ValueError of the constructor, and the record with its phone list is
  exactly as before the call.
\<close>

theorem C10_add_phone_rejected_unchanged:
  assumes "Phone_init p = Inl e"
  shows "add_phone r p = (Inl e, r)
       \<and> e = ValueError ''Phone number must contain exactly 10 digits.''
       \<and> phones (snd (add_phone r p)) = phones r"
proof -
  from assms have "e = ValueError ''Phone number must contain exactly 10 digits.''"
    by (simp add: Phone_init_Inl)
  moreover from assms have "add_phone r p = (Inl e, r)"
    by (simp add: add_phone_def)
  ultimately show ?thesis by simp
qed

text \<open>
  The theorem at John with one phone, adding the five-character string \<^verbatim>\<open>12345\<close>.
\<close>

theorem C10_add_phone_rejected_unchanged_witness:
  "Phone_init ''12345'' = Inl (ValueError ''Phone number must contain exactly 10 digits.'')
   \<and> add_phone \<lparr>name = Name ''John'', phones = [Phone ''1234567890'']\<rparr> ''12345''
     = (Inl (ValueError ''Phone number must contain exactly 10 digits.''),
        \<lparr>name = Name ''John'', phones = [Phone ''1234567890'']\<rparr>)"
proof -
  have h: "Phone_init ''12345'' = Inl (ValueError ''Phone number must contain exactly 10 digits.'')"
    by (simp add: Phone_init_def not_re_match_short)
  from h C10_add_phone_rejected_unchanged [OF h, of "\<lparr>name = Name ''John'', phones = [Phone ''1234567890'']\<rparr>"]
  show ?thesis by simp
qed

end
